theory Spec2Isabelle
  imports Main
begin

text \<open>
  A model of the checkout server: package \<^verbatim>\<open>urlpath\<close> (\<^verbatim>\<open>Clean\<close> and \<^verbatim>\<open>Split\<close>), the
  two middlewares that resolve a campaign or an order from the head of the path, the
  handler of the active campaign, and the handlers \<^verbatim>\<open>New\<close>, \<^verbatim>\<open>Create\<close>, \<^verbatim>\<open>Show\<close> and
  \<^verbatim>\<open>Confirm\<close> of an order. The functions of the Go library that the code calls are
  modelled as far as the code uses them.
\<close>

section \<open>Strings and integers of the Go runtime\<close>

text \<open>
  A Go \<^verbatim>\<open>string\<close> is a sequence of bytes: \<^typ>\<open>string\<close>. A Go \<^verbatim>\<open>int\<close> is taken
  as an unbounded \<^typ>\<open>int\<close>; the only arithmetic the handlers do on one is a division
  by a positive constant, which cannot overflow.
\<close>

definition LF :: char where
  "LF = CHR 0x0A"

definition quo :: "int \<Rightarrow> int \<Rightarrow> int" where
  \<comment> \<open>Go's \<^verbatim>\<open>/\<close> on integers: the quotient truncated toward zero.\<close>
  "quo a b = sgn a * sgn b * (\<bar>a\<bar> div \<bar>b\<bar>)"

subsection \<open>Package path: Clean\<close>

text \<open>
  \<^verbatim>\<open>path.Clean\<close> reads the path from left to right and writes into a buffer \<open>out\<close>
  (\<^verbatim>\<open>out.w\<close> is \<open>length out\<close>); \<open>dotdot\<close> is the index where a \<^verbatim>\<open>..\<close> element must
  stop backtracking. The argument of \<open>clean_loop\<close> that shrinks is the unread rest of
  the path, \<^verbatim>\<open>path[r:]\<close>.
\<close>

text \<open>The inner loop \<^verbatim>\<open>for out.w > dotdot && out.index(out.w) != '/' { out.w-- }\<close>.\<close>

function backtrack :: "string \<Rightarrow> nat \<Rightarrow> nat \<Rightarrow> nat" where
  "backtrack buf dotdot w =
     (if w > dotdot \<and> buf ! w \<noteq> CHR ''/'' then backtrack buf dotdot (w - 1) else w)"
  by pat_completeness auto
termination
  by (relation "measure (\<lambda>(buf, dotdot, w). w)") auto

declare backtrack.simps [simp del]

definition is_dot :: "string \<Rightarrow> bool" where
  \<comment> \<open>\<^verbatim>\<open>path[r] == '.' && (r+1 == n || path[r+1] == '/')\<close>\<close>
  "is_dot rest =
     (case rest of
        [] \<Rightarrow> False
      | c # cs \<Rightarrow> c = CHR ''.'' \<and> (case cs of [] \<Rightarrow> True | d # _ \<Rightarrow> d = CHR ''/''))"

definition is_dotdot :: "string \<Rightarrow> bool" where
  \<comment> \<open>\<^verbatim>\<open>path[r] == '.' && path[r+1] == '.' && (r+2 == n || path[r+2] == '/')\<close>\<close>
  "is_dotdot rest =
     (case rest of
        c # d # ds \<Rightarrow>
          c = CHR ''.'' \<and> d = CHR ''.'' \<and> (case ds of [] \<Rightarrow> True | e # _ \<Rightarrow> e = CHR ''/'')
      | _ \<Rightarrow> False)"

definition not_slash :: "char \<Rightarrow> bool" where
  "not_slash c = (c \<noteq> CHR ''/'')"

function clean_loop :: "bool \<Rightarrow> nat \<Rightarrow> string \<Rightarrow> string \<Rightarrow> string" where
  "clean_loop rooted dotdot out [] = out"
| "clean_loop rooted dotdot out (c # cs) =
     (if c = CHR ''/'' then clean_loop rooted dotdot out cs
      else if is_dot (c # cs) then clean_loop rooted dotdot out cs
      else if is_dotdot (c # cs) then
        (if length out > dotdot then
           clean_loop rooted dotdot (take (backtrack out dotdot (length out - 1)) out) (tl cs)
         else if \<not> rooted then
           (let out' = (if length out > 0 then out @ ''/'' else out) @ ''..''
            in clean_loop rooted (length out') out' (tl cs))
         else clean_loop rooted dotdot out (tl cs))
      else
        (let out' = (if rooted \<and> length out \<noteq> 1 \<or> \<not> rooted \<and> length out \<noteq> 0
                     then out @ ''/'' else out)
         in clean_loop rooted dotdot (out' @ takeWhile not_slash (c # cs))
              (dropWhile not_slash (c # cs))))"
  by pat_completeness auto
termination
  apply (relation "measure (\<lambda>(rooted, dotdot, out, rest). length rest)")
  subgoal by simp
  subgoal by simp
  subgoal by simp
  subgoal by simp
  subgoal by simp
  subgoal by simp
  subgoal for rooted dotdot out c cs x
    using length_dropWhile_le [of not_slash cs] by (simp add: not_slash_def)
  done

definition path_Clean :: "string \<Rightarrow> string" where
  "path_Clean path =
     (if path = [] then ''.''
      else
        (let rooted = (hd path = CHR ''/'');
             out = (if rooted
                    then clean_loop True 1 ''/'' (tl path)
                    else clean_loop False 0 [] path)
         in if out = [] then ''.'' else out))"

subsection \<open>Package urlpath\<close>

definition Clean :: "string \<Rightarrow> string" where
  "Clean path =
     (let path = path_Clean (''/'' @ path)
      in if last path \<noteq> CHR ''/'' then path @ ''/'' else path)"




subsection \<open>Packages strings, strconv and time\<close>

text \<open>
  \<^verbatim>\<open>strings.Replace(s, old, new, n)\<close> for a count \<open>n \<ge> 0\<close> and an \<open>old\<close> that is not
  empty (with an empty \<open>old\<close>, which this program never passes, the model returns \<open>s\<close>):
  the first \<open>n\<close> instances of \<open>old\<close> that do not overlap, read from the left, are
  replaced by \<open>new\<close>.
\<close>

fun Replace :: "string \<Rightarrow> string \<Rightarrow> string \<Rightarrow> nat \<Rightarrow> string" where
  "Replace [] old new n = []"
| "Replace (c # cs) old new n =
     (if n = 0 then c # cs
      else if old \<noteq> [] \<and> take (length old) (c # cs) = old
        then new @ Replace (drop (length old) (c # cs)) old new (n - 1)
      else c # Replace cs old new n)"

text \<open>
  \<^verbatim>\<open>strings.ToUpper\<close> on the bytes of ASCII: the letters \<^verbatim>\<open>a\<close> to \<^verbatim>\<open>z\<close> go to
  \<^verbatim>\<open>A\<close> to \<^verbatim>\<open>Z\<close>. Go maps a multi-byte rune by the Unicode tables; the model
  leaves every byte outside ASCII as it is.
\<close>

definition upper_byte :: "char \<Rightarrow> char" where
  "upper_byte c =
     (let n = (of_char c :: nat)
      in if 97 \<le> n \<and> n \<le> 122 then char_of (n - 32) else c)"

definition ToUpper :: "string \<Rightarrow> string" where
  "ToUpper s = map upper_byte s"

datatype error =
    ErrNoRows
  | StripeError (Message: string)
  | ErrSyntax
  | ErrRange
  | OtherError string




text \<open>
  A \<^verbatim>\<open>time.Time\<close> is an instant counted in nanoseconds, a \<^verbatim>\<open>time.Duration\<close> a
  64-bit count of nanoseconds. \<^verbatim>\<open>Time.Sub\<close> returns the largest or the smallest
  duration when the difference does not fit.
\<close>

type_synonym Time = int
type_synonym Duration = int

definition Second :: Duration where "Second = 1000000000"
definition Minute :: Duration where "Minute = 60 * Second"
definition Hour :: Duration where "Hour = 60 * Minute"

definition maxDuration :: Duration where "maxDuration = 2 ^ 63 - 1"
definition minDuration :: Duration where "minDuration = - (2 ^ 63)"

definition Sub :: "Time \<Rightarrow> Time \<Rightarrow> Duration" where
  "Sub t u = (let d = t - u in
     if d > maxDuration then maxDuration else if d < minDuration then minDuration else d)"

section \<open>The data model\<close>

text \<open>
  The structs of package \<^verbatim>\<open>db\<close> and of package \<^verbatim>\<open>stripe\<close>, with the fields the
  handlers and their tests read and write.
\<close>

record Campaign =
  Campaign_ID :: int
  StartsAt :: Time
  EndsAt :: Time
  Price :: int

record Customer =
  Name :: string
  Email :: string

record Address =
  Street1 :: string
  Street2 :: string
  City :: string
  State :: string
  Zip :: string
  Country :: string
  Raw :: string

record Payment =
  Source :: string
  CustomerID :: string
  ChargeID :: string

record Order =
  Order_ID :: int
  CampaignID :: int
  Customer :: Customer
  Address :: Address
  Payment :: Payment

record stripe_Customer =
  Customer_ID :: string

record stripe_Charge =
  Charge_ID :: string
  Status :: string

definition zero_Order :: Order where
  \<comment> \<open>\<^verbatim>\<open>var order db.Order\<close>\<close>
  "zero_Order =
     \<lparr>Order_ID = 0, CampaignID = 0,
      Customer = \<lparr>Name = [], Email = []\<rparr>,
      Address = \<lparr>Street1 = [], Street2 = [], City = [], State = [], Zip = [],
                 Country = [], Raw = []\<rparr>,
      Payment = \<lparr>Source = [], CustomerID = [], ChargeID = []\<rparr>\<rparr>"

section \<open>Requests, responses and the calls a handler makes\<close>

text \<open>
  A request carries its method, \<^verbatim>\<open>URL.Path\<close>, the parsed \<^verbatim>\<open>PostForm\<close> and its
  context. A context is the chain of key and value pairs that \<^verbatim>\<open>context.WithValue\<close>
  builds, the newest pair first; a value is a pointer to a campaign, a pointer to an
  order (neither of them nil), or a value of another type.
\<close>

datatype ctx_value = CampaignPtr Campaign | OrderPtr Order | OtherValue

record request =
  Method :: string
  URL_Path :: string
  PostForm :: "(string \<times> string list) list"
  Context :: "(string \<times> ctx_value) list"


definition Value :: "request \<Rightarrow> string \<Rightarrow> ctx_value option" where
  \<comment> \<open>\<^verbatim>\<open>r.Context().Value(key)\<close>; \<open>None\<close> is the nil interface\<close>
  "Value r key = map_of (Context r) key"

definition form_Get :: "(string \<times> string list) list \<Rightarrow> string \<Rightarrow> string" where
  \<comment> \<open>\<^verbatim>\<open>url.Values.Get\<close>: the first value of the key, or the empty string\<close>
  "form_Get form key =
     (case map_of form key of None \<Rightarrow> [] | Some [] \<Rightarrow> [] | Some (v # _) \<Rightarrow> v)"

definition PostFormValue :: "request \<Rightarrow> string \<Rightarrow> string" where
  "PostFormValue r key = form_Get (PostForm r) key"

text \<open>The data the handlers pass to their templates.\<close>

record new_data =
  new_Campaign_ID :: int
  new_Campaign_Price :: int
  new_StripePublicKey :: string

record review_data =
  review_Order_ID :: string
  review_Order_Address :: string
  review_Campaign_Price :: int

record show_data =
  show_ID :: int
  show_Price :: int
  show_TimeLeft_Value :: int
  show_TimeLeft_Unit :: string

datatype arg = ArgString string | ArgError error

text \<open>
  Every call that leaves the handler is recorded, in order: the calls on the storage
  and on the payment client, the template executions with their data, the log lines
  (format and arguments), the reading of the clock, and the call of the inner handler of
  a middleware with the request it is given.
\<close>

datatype event =
    ActiveCampaignCall
  | GetCampaignCall int
  | CreateOrderCall Order
  | GetOrderViaPayCusCall string
  | ConfirmOrderCall int string string
  | StripeCustomerCall string string
  | GetChargeCall string
  | ChargeCall string int
  | ExecuteNew new_data
  | ExecuteReview review_data
  | ExecuteShow show_data
  | ExecuteEnded
  | PrintfCall string "arg list"
  | TimeNowCall
  | NextCall request

text \<open>
  The state of one exchange: the status code of the first \<^verbatim>\<open>WriteHeader\<close> (\<open>None\<close>
  while no header is written), the \<^verbatim>\<open>Location\<close> header, the body written so far,
  the calls made so far, and the value of a panic that ended the handler.
\<close>

record conn =
  status :: "nat option"
  location :: "string option"
  body :: string
  calls :: "event list"
  panicked :: "string option"

definition fresh :: conn where
  "fresh = \<lparr>status = None, location = None, body = [], calls = [], panicked = None\<rparr>"

definition StatusCode :: "conn \<Rightarrow> nat" where
  \<comment> \<open>the status the client sees: 200 when the handler wrote no header\<close>
  "StatusCode st = (case status st of None \<Rightarrow> 200 | Some c \<Rightarrow> c)"

definition WriteHeader :: "nat \<Rightarrow> conn \<Rightarrow> conn" where
  "WriteHeader c st = (case status st of None \<Rightarrow> st\<lparr>status := Some c\<rparr> | Some _ \<Rightarrow> st)"

definition Write :: "string \<Rightarrow> conn \<Rightarrow> conn" where
  "Write s st = (let st = WriteHeader 200 st in st\<lparr>body := body st @ s\<rparr>)"

definition Fprint :: "string \<Rightarrow> conn \<Rightarrow> conn" where
  "Fprint s st = Write s st"

definition Fprintln :: "string \<Rightarrow> conn \<Rightarrow> conn" where
  "Fprintln s st = Write (s @ [LF]) st"

definition http_Error :: "string \<Rightarrow> nat \<Rightarrow> conn \<Rightarrow> conn" where
  "http_Error msg c st = Fprintln msg (WriteHeader c st)"

definition http_NotFound :: "conn \<Rightarrow> conn" where
  "http_NotFound st = http_Error ''404 page not found'' 404 st"

text \<open>
  \<^verbatim>\<open>http.Redirect\<close>: the model records the target as the handler passes it and the
  status code. What \<^verbatim>\<open>net/http\<close> does to the target before it writes the header (it
  cleans the path and escapes bytes outside ASCII), and the body it adds for a \<^verbatim>\<open>GET\<close>,
  are not modelled.
\<close>

definition http_Redirect :: "string \<Rightarrow> nat \<Rightarrow> conn \<Rightarrow> conn" where
  "http_Redirect url c st = WriteHeader c (st\<lparr>location := Some url\<rparr>)"

definition panic :: "string \<Rightarrow> conn \<Rightarrow> conn" where
  "panic v st = st\<lparr>panicked := Some v\<rparr>"

definition call :: "event \<Rightarrow> conn \<Rightarrow> conn" where
  "call e st = st\<lparr>calls := calls st @ [e]\<rparr>"

definition Printf :: "string \<Rightarrow> arg list \<Rightarrow> conn \<Rightarrow> conn" where
  "Printf format args st = call (PrintfCall format args) st"

definition Execute :: "event \<Rightarrow> string \<times> error option \<Rightarrow> conn \<Rightarrow> error option \<times> conn" where
  \<comment> \<open>a template writes its output and returns its error\<close>
  "Execute e res st = (snd res, Write (fst res) (call e st))"

section \<open>The order handler\<close>

text \<open>
  The collaborators of \<^verbatim>\<open>OrderHandler\<close> are fields of the handler, as in the source:
  each method of the \<^verbatim>\<open>DB\<close> and of the \<^verbatim>\<open>Stripe.Client\<close> interface is a function
  from its arguments to what it returns, and a template is a function from its data to
  the bytes it writes and its error. A handler calls each method at most once in a
  run, so a function of the arguments covers an implementation with a state of its own.
  A Go result \<^verbatim>\<open>(v, err)\<close> is \<open>Inl err\<close> when \<^verbatim>\<open>err != nil\<close> and \<open>Inr v\<close> otherwise.
  The \<^verbatim>\<open>Logger\<close> returns nothing: a call of its \<^verbatim>\<open>Printf\<close> is recorded and no more.
\<close>

text \<open>
  Modelled from the spec: the storage implementation behind \<^verbatim>\<open>CreateOrder(*db.Order)\<close>
  is not among the sources; by the interface of the spec it assigns the ID or returns an
  error, so \<open>oh_DB_CreateOrder\<close> returns the assigned ID and leaves every other field
  of the order as the handler built it.
\<close>

record OrderHandler =
  oh_DB_CreateOrder :: "Order \<Rightarrow> error + int"
  oh_DB_GetOrderViaPayCus :: "string \<Rightarrow> error + Order"
  oh_DB_GetCampaign :: "int \<Rightarrow> error + Campaign"
  oh_DB_ConfirmOrder :: "int \<Rightarrow> string \<Rightarrow> string \<Rightarrow> error option"
  oh_Stripe_PublicKey :: string
  oh_Stripe_Customer :: "string \<Rightarrow> string \<Rightarrow> error + stripe_Customer"
  oh_Stripe_GetCharge :: "string \<Rightarrow> error + stripe_Charge"
  oh_Stripe_Charge :: "string \<Rightarrow> int \<Rightarrow> error + stripe_Charge"
  oh_Templates_New :: "new_data \<Rightarrow> string \<times> error option"
  oh_Templates_Review :: "review_data \<Rightarrow> string \<times> error option"

type_synonym HandlerFunc = "request \<Rightarrow> conn \<Rightarrow> conn"

definition New :: "OrderHandler \<Rightarrow> HandlerFunc" where
  "New oh r st =
     (case Value r ''campaign'' of
        Some (CampaignPtr campaign) \<Rightarrow>
          (let data = \<lparr>new_Campaign_ID = Campaign_ID campaign,
                       new_Campaign_Price = quo (Price campaign) 100,
                       new_StripePublicKey = oh_Stripe_PublicKey oh\<rparr>;
               (err, st) = Execute (ExecuteNew data) (oh_Templates_New oh data) st
           in case err of
                None \<Rightarrow> st
              | Some e \<Rightarrow>
                  Printf ''Error executing the new_order template. err = %v'' [ArgError e] st)
      | _ \<Rightarrow> http_Error ''Campaign not provided'' 500 st)"

text \<open>
  The anonymous struct \<^verbatim>\<open>formData\<close> of \<^verbatim>\<open>Create\<close>, and the decoder of package
  \<^verbatim>\<open>schema\<close> on it, for a form whose keys are spelled as the fields are: a string
  field takes the last value submitted under the name of the field, and stays empty
  when there is none. The error of \<^verbatim>\<open>Decode\<close> is dropped by the handler. The
  statements about \<^verbatim>\<open>Create\<close> below speak of the decoded struct only.
\<close>

record formData =
  form_Name :: string
  form_Email :: string
  form_Street1 :: string
  form_Street2 :: string
  form_City :: string
  form_State :: string
  form_Zip :: string
  form_Country :: string

definition decode_field :: "(string \<times> string list) list \<Rightarrow> string \<Rightarrow> string" where
  "decode_field form key =
     (case map_of form key of None \<Rightarrow> [] | Some vs \<Rightarrow> (if vs = [] then [] else last vs))"

definition Decode :: "(string \<times> string list) list \<Rightarrow> formData" where
  "Decode form =
     \<lparr>form_Name = decode_field form ''Name'',
      form_Email = decode_field form ''Email'',
      form_Street1 = decode_field form ''Street1'',
      form_Street2 = decode_field form ''Street2'',
      form_City = decode_field form ''City'',
      form_State = decode_field form ''State'',
      form_Zip = decode_field form ''Zip'',
      form_Country = decode_field form ''Country''\<rparr>"

definition Sprintf_address ::
  "string \<Rightarrow> string \<Rightarrow> string \<Rightarrow> string \<Rightarrow> string \<Rightarrow> string \<Rightarrow> string \<Rightarrow> string" where
  \<comment> \<open>the format of five lines: name, street 1, street 2, city state and zip, country\<close>
  "Sprintf_address name street1 street2 city state zipcode country =
     name @ [LF] @ street1 @ [LF] @ street2 @ [LF]
       @ city @ '' '' @ state @ ''  '' @ zipcode @ [LF] @ country"

definition Create :: "OrderHandler \<Rightarrow> HandlerFunc" where
  "Create oh r st =
     (case Value r ''campaign'' of
        Some (CampaignPtr campaign) \<Rightarrow>
          (let formData = Decode (PostForm r)
           in if form_Email formData = [] then panic (''email wasn'' @ [CHR 0x27] @ ''t parsed!'') st
              else
                (let token = form_Get (PostForm r) ''stripe-token'';
                     st = call (StripeCustomerCall token (form_Email formData)) st
                 in case oh_Stripe_Customer oh token (form_Email formData) of
                      Inl err \<Rightarrow>
                        http_Error ''Something went wrong processing your payment information. Try again, or contact me - jon@calhoun.io - if the problem persists.'' 500
                          (Printf ''Error creating stripe customer. email = %s, err = %v''
                             [ArgString (form_Email formData), ArgError err] st)
                    | Inr cus \<Rightarrow>
                        (let order = zero_Order;
                             order = order\<lparr>CampaignID := Campaign_ID campaign\<rparr>;
                             order = order\<lparr>Customer := (Customer order)\<lparr>Name := form_Name formData\<rparr>\<rparr>;
                             order = order\<lparr>Customer := (Customer order)\<lparr>Email := form_Email formData\<rparr>\<rparr>;
                             order = order\<lparr>Address := (Address order)\<lparr>Street1 := form_Street1 formData\<rparr>\<rparr>;
                             order = order\<lparr>Address := (Address order)\<lparr>Street2 := form_Street2 formData\<rparr>\<rparr>;
                             order = order\<lparr>Address := (Address order)\<lparr>City := form_City formData\<rparr>\<rparr>;
                             order = order\<lparr>Address := (Address order)\<lparr>State := form_State formData\<rparr>\<rparr>;
                             order = order\<lparr>Address := (Address order)\<lparr>Zip := form_Zip formData\<rparr>\<rparr>;
                             order = order\<lparr>Address := (Address order)\<lparr>Country := form_Country formData\<rparr>\<rparr>;
                             order = order\<lparr>Address := (Address order)\<lparr>Raw :=
                                       Sprintf_address (Name (Customer order))
                                         (Street1 (Address order)) (Street2 (Address order))
                                         (City (Address order)) (State (Address order))
                                         (Zip (Address order)) (Country (Address order))\<rparr>\<rparr>;
                             order = order\<lparr>Address := (Address order)\<lparr>Raw :=
                                       Replace (Raw (Address order)) [LF, LF] [LF] 1\<rparr>\<rparr>;
                             order = order\<lparr>Address := (Address order)\<lparr>Raw :=
                                       ToUpper (Raw (Address order))\<rparr>\<rparr>;
                             order = order\<lparr>Payment := (Payment order)\<lparr>Source := ''stripe''\<rparr>\<rparr>;
                             order = order\<lparr>Payment := (Payment order)\<lparr>CustomerID := Customer_ID cus\<rparr>\<rparr>;
                             st = call (CreateOrderCall order) st
                         in case oh_DB_CreateOrder oh order of
                              Inl err \<Rightarrow> http_Error ''Something went wrong...'' 400 st
                            | Inr newID \<Rightarrow>
                                (let order = order\<lparr>Order_ID := newID\<rparr>
                                 in http_Redirect (''/orders/'' @ CustomerID (Payment order)) 302 st))))
      | _ \<Rightarrow> panic ''interface conversion: interface {} is not *db.Campaign'' st)"


definition Show :: "OrderHandler \<Rightarrow> HandlerFunc" where
  "Show oh r st =
     (case Value r ''order'' of
        Some (OrderPtr order) \<Rightarrow>
          (let st = call (GetCampaignCall (CampaignID order)) st
           in case oh_DB_GetCampaign oh (CampaignID order) of
                Inl err \<Rightarrow>
                  http_Error ''Something went wrong...'' 500
                    (Printf (''error retrieving order campaign'' @ [LF]) [] st)
              | Inr campaign \<Rightarrow>
                  if ChargeID (Payment order) \<noteq> [] then
                    (let st = call (GetChargeCall (ChargeID (Payment order))) st
                     in case oh_Stripe_GetCharge oh (ChargeID (Payment order)) of
                          Inl err \<Rightarrow>
                            Fprintln ''Failed to lookup the status of your order. Please try again, or contact me if this persists - jon@calhoun.io''
                              (Printf (''error looking up a customer'' @ [CHR 0x27]
                                        @ ''s charge where chg.ID = %s; err = %v'')
                                 [ArgString (ChargeID (Payment order)), ArgError err] st)
                        | Inr chg \<Rightarrow>
                            if Status chg = ''succeeded'' then
                              Fprintln ''Your order has been completed successfully! You will be contacted when it ships.'' st
                            else if Status chg = ''pending'' then
                              Fprintln ''Your payment is still pending.'' st
                            else if Status chg = ''failed'' then
                              Fprintln ''Your payment failed. :( Please create a new order with a new card if you want to try again.'' st
                            else st)
                  else
                    (let data = \<lparr>review_Order_ID = CustomerID (Payment order),
                                 review_Order_Address = Raw (Address order),
                                 review_Campaign_Price = quo (Price campaign) 100\<rparr>
                     in snd (Execute (ExecuteReview data) (oh_Templates_Review oh data) st)))
      | _ \<Rightarrow> panic ''interface conversion: interface {} is not *db.Order'' st)"

definition Confirm :: "OrderHandler \<Rightarrow> HandlerFunc" where
  "Confirm oh r st =
     (case Value r ''order'' of
        Some (OrderPtr order) \<Rightarrow>
          (let st = call (GetCampaignCall (CampaignID order)) st
           in case oh_DB_GetCampaign oh (CampaignID order) of
                Inl err \<Rightarrow>
                  http_Error ''Something went wrong...'' 500
                    (Printf (''error retrieving order campaign'' @ [LF]) [] st)
              | Inr campaign \<Rightarrow>
                  (let order = order\<lparr>Address := (Address order)\<lparr>Raw :=
                                 PostFormValue r ''address-raw''\<rparr>\<rparr>;
                       st = call (ChargeCall (CustomerID (Payment order)) (Price campaign)) st
                   in case oh_Stripe_Charge oh (CustomerID (Payment order)) (Price campaign) of
                        Inl err \<Rightarrow>
                          (case err of
                             StripeError msg \<Rightarrow> Fprint msg st
                           | _ \<Rightarrow>
                               http_Error ''Something went wrong processing your card. Please contact me for support - jon@calhoun.io'' 500 st)
                      | Inr chg \<Rightarrow>
                          (let order = order\<lparr>Payment := (Payment order)\<lparr>ChargeID := Charge_ID chg\<rparr>\<rparr>;
                               st = call (ConfirmOrderCall (Order_ID order) (Raw (Address order))
                                            (ChargeID (Payment order))) st
                           in case oh_DB_ConfirmOrder oh (Order_ID order) (Raw (Address order))
                                     (ChargeID (Payment order)) of
                                Some err \<Rightarrow>
                                  http_Error ''You were charged, but something went wrong saving your data. Please contact me for support - jon@calhoun.io'' 500 st
                              | None \<Rightarrow>
                                  http_Redirect (''/orders/'' @ CustomerID (Payment order)) 302 st)))
      | _ \<Rightarrow> panic ''interface conversion: interface {} is not *db.Order'' st)"

section \<open>The campaign handler\<close>

record CampaignHandler =
  ch_DB_ActiveCampaign :: "error + Campaign"
  ch_DB_GetCampaign :: "int \<Rightarrow> error + Campaign"
  ch_Templates_Show :: "show_data \<Rightarrow> string \<times> error option"
  ch_Templates_Ended :: "string \<times> error option"
  ch_TimeNow :: Time

definition TimeLeft :: "Duration \<Rightarrow> int \<times> string" where
  \<comment> \<open>the \<^verbatim>\<open>switch\<close> of \<^verbatim>\<open>ShowActive\<close> on \<^verbatim>\<open>left\<close>: \<^verbatim>\<open>(leftValue, leftUnit)\<close>\<close>
  "TimeLeft left =
     (if left \<ge> 24 * Hour then (quo left (24 * Hour), ''day(s)'')
      else if left \<ge> Hour then (quo left Hour, ''hour(s)'')
      else if left \<ge> Minute then (quo left Minute, ''minute(s)'')
      else (quo left Second, ''second(s)''))"

definition ShowActive :: "CampaignHandler \<Rightarrow> HandlerFunc" where
  "ShowActive ch r st =
     (let st = call ActiveCampaignCall st
      in case ch_DB_ActiveCampaign ch of
           Inl err \<Rightarrow>
             if err = ErrNoRows then
               (let (err, st) = Execute ExecuteEnded (ch_Templates_Ended ch) st
                in case err of
                     None \<Rightarrow> st
                   | Some e \<Rightarrow>
                       Printf ''Error executing campaign ended template. err = %v'' [ArgError e] st)
             else
               http_Error ''Something went wrong...'' 500
                 (Printf ''Error retrieving the active campaign. err = %v'' [ArgError err] st)
         | Inr campaign \<Rightarrow>
             (let st = call TimeNowCall st;
                  left = Sub (EndsAt campaign) (ch_TimeNow ch);
                  (leftValue, leftUnit) = TimeLeft left;
                  data = \<lparr>show_ID = Campaign_ID campaign,
                          show_Price = quo (Price campaign) 100,
                          show_TimeLeft_Value = leftValue,
                          show_TimeLeft_Unit = leftUnit\<rparr>;
                  (err, st) = Execute (ExecuteShow data) (ch_Templates_Show ch data) st
              in case err of
                   None \<Rightarrow> st
                 | Some e \<Rightarrow>
                     Printf ''Error executing campaign show template. err = %v'' [ArgError e] st))"


section \<open>Notions used in the statements and proofs\<close>

subsection \<open>Cleaned paths\<close>

text \<open>
  A proper element of a path is not empty, has no slash and is neither \<^verbatim>\<open>.\<close> nor
  \<^verbatim>\<open>..\<close>. \<open>render cs\<close> is the rooted path of the elements \<open>cs\<close> as \<^verbatim>\<open>path.Clean\<close>
  returns it, \<open>closed_form cs\<close> the same path with the slash that \<^verbatim>\<open>urlpath.Clean\<close>
  puts at its end.
\<close>

definition proper :: "string \<Rightarrow> bool" where
  "proper c = (c \<noteq> [] \<and> CHR ''/'' \<notin> set c \<and> c \<noteq> ''.'' \<and> c \<noteq> ''..'')"

definition join :: "string list \<Rightarrow> string" where
  "join cs = concat (map (\<lambda>c. CHR ''/'' # c) cs)"

definition render :: "string list \<Rightarrow> string" where
  "render cs = (if cs = [] then ''/'' else join cs)"

definition closed_form :: "string list \<Rightarrow> string" where
  "closed_form cs = (if cs = [] then ''/'' else join cs @ ''/'')"


subsection \<open>Reading the calls of a run\<close>


fun is_Charge :: "event \<Rightarrow> bool" where
  "is_Charge (ChargeCall customerID amount) = True"
| "is_Charge _ = False"


fun is_Printf :: "event \<Rightarrow> bool" where
  "is_Printf (PrintfCall format args) = True"
| "is_Printf _ = False"



fun shown :: "event list \<Rightarrow> show_data list" where
  \<comment> \<open>the data passed to the template of the active campaign, in order\<close>
  "shown [] = []"
| "shown (ExecuteShow data # es) = data # shown es"
| "shown (e # es) = shown es"

text \<open>
  \<open>confirm_after_charge oh charged es\<close>: in the calls \<open>es\<close>, every \<^verbatim>\<open>ConfirmOrder\<close>
  comes after a \<^verbatim>\<open>Charge\<close> that returned without an error (\<open>charged\<close> says whether
  one came before \<open>es\<close>).
\<close>

fun confirm_after_charge :: "OrderHandler \<Rightarrow> bool \<Rightarrow> event list \<Rightarrow> bool" where
  "confirm_after_charge oh charged [] = True"
| "confirm_after_charge oh charged (ChargeCall customerID amount # es) =
     confirm_after_charge oh
       (charged \<or> (case oh_Stripe_Charge oh customerID amount of Inl err \<Rightarrow> False | Inr chg \<Rightarrow> True)) es"
| "confirm_after_charge oh charged (ConfirmOrderCall orderID addressRaw chargeID # es) =
     (charged \<and> confirm_after_charge oh charged es)"
| "confirm_after_charge oh charged (e # es) = confirm_after_charge oh charged es"

subsection \<open>Values for the examples\<close>

text \<open>
  A campaign, an order and collaborators in the manner of the mocks of the tests of the
  handlers: the storage knows one campaign and one order, the payment client knows one
  customer.
\<close>

definition test_campaign :: Campaign where
  "test_campaign = \<lparr>Campaign_ID = 333, StartsAt = 0, EndsAt = 2 * Hour, Price = 1200\<rparr>"

definition test_order :: Order where
  "test_order =
     \<lparr>Order_ID = 123, CampaignID = 333,
      Customer = \<lparr>Name = ''Chris Greene'', Email = ''chris@test.com''\<rparr>,
      Address = \<lparr>Street1 = ''123 Sticker St'', Street2 = [], City = ''San Francisco'',
                 State = ''CA'', Zip = ''94139'', Country = ''United States'',
                 Raw = ''CHRIS GREENE''\<rparr>,
      Payment = \<lparr>Source = ''stripe'', CustomerID = ''cus_abc123'', ChargeID = []\<rparr>\<rparr>"

definition charged_order :: Order where
  "charged_order = test_order\<lparr>Payment := (Payment test_order)\<lparr>ChargeID := ''chg_xyz890''\<rparr>\<rparr>"

definition mockDB_GetCampaign :: "int \<Rightarrow> error + Campaign" where
  "mockDB_GetCampaign campaignID =
     (if campaignID = Campaign_ID test_campaign then Inr test_campaign else Inl ErrNoRows)"

definition mockDB_GetOrderViaPayCus :: "string \<Rightarrow> error + Order" where
  "mockDB_GetOrderViaPayCus payCusID =
     (if payCusID = CustomerID (Payment test_order) then Inr test_order else Inl ErrNoRows)"

definition mockStripe_Charge :: "string \<Rightarrow> int \<Rightarrow> error + stripe_Charge" where
  "mockStripe_Charge customerID amount =
     (if customerID = CustomerID (Payment test_order)
      then Inr \<lparr>Charge_ID = ''chg_xyz890'', Status = ''pending''\<rparr>
      else Inl (StripeError []))"

definition mock_oh :: "string \<Rightarrow> OrderHandler" where
  \<comment> \<open>the argument is the status that \<^verbatim>\<open>GetCharge\<close> reports\<close>
  "mock_oh chargeStatus =
     \<lparr>oh_DB_CreateOrder = (\<lambda>order. Inr 123),
      oh_DB_GetOrderViaPayCus = mockDB_GetOrderViaPayCus,
      oh_DB_GetCampaign = mockDB_GetCampaign,
      oh_DB_ConfirmOrder = (\<lambda>orderID addressRaw chargeID. None),
      oh_Stripe_PublicKey = ''sk_pub_123abc'',
      oh_Stripe_Customer = (\<lambda>token email. Inr \<lparr>Customer_ID = ''cus_abc123''\<rparr>),
      oh_Stripe_GetCharge = (\<lambda>chargeID. Inr \<lparr>Charge_ID = chargeID, Status = chargeStatus\<rparr>),
      oh_Stripe_Charge = mockStripe_Charge,
      oh_Templates_New = (\<lambda>data. ([], None)),
      oh_Templates_Review = (\<lambda>data. (review_Order_Address data, None))\<rparr>"

definition mock_ch :: CampaignHandler where
  "mock_ch =
     \<lparr>ch_DB_ActiveCampaign = Inr test_campaign,
      ch_DB_GetCampaign = mockDB_GetCampaign,
      ch_Templates_Show = (\<lambda>data. (show_TimeLeft_Unit data, None)),
      ch_Templates_Ended = ([], None),
      ch_TimeNow = 0\<rparr>"

definition test_request ::
  "string \<Rightarrow> (string \<times> string list) list \<Rightarrow> (string \<times> ctx_value) list \<Rightarrow> request" where
  "test_request path form ctx = \<lparr>Method = ''POST'', URL_Path = path, PostForm = form, Context = ctx\<rparr>"




section \<open>Unfolding the operations on an exchange and the example values\<close>

lemmas conn_ops = call_def Printf_def Fprint_def Fprintln_def Write_def WriteHeader_def
  http_Error_def http_NotFound_def http_Redirect_def panic_def Execute_def StatusCode_def
  fresh_def

lemmas mock_defs = mock_oh_def mock_ch_def test_request_def test_order_def charged_order_def
  test_campaign_def mockDB_GetCampaign_def mockDB_GetOrderViaPayCus_def mockStripe_Charge_def
  Value_def PostFormValue_def form_Get_def



section \<open>Package urlpath: Clean\<close>

lemma backtrack_prefix:
  "w < length buf \<Longrightarrow> backtrack (buf @ ys) dotdot w = backtrack buf dotdot w"
proof (induction buf dotdot w rule: backtrack.induct)
  case (1 buf dotdot w)
  have same: "(buf @ ys) ! w = buf ! w"
    using 1(2) by (simp add: nth_append)
  show ?case
  proof (cases "w > dotdot \<and> buf ! w \<noteq> CHR ''/''")
    case True
    with 1 have "backtrack (buf @ ys) dotdot (w - 1) = backtrack buf dotdot (w - 1)"
      by simp
    with True same show ?thesis
      using backtrack.simps [of "buf @ ys" dotdot w] backtrack.simps [of buf dotdot w]
      by simp
  next
    case False
    with same show ?thesis
      using backtrack.simps [of "buf @ ys" dotdot w] backtrack.simps [of buf dotdot w]
      by auto
  qed
qed

lemma backtrack_component:
  "CHR ''/'' \<notin> set c \<Longrightarrow> dotdot \<le> length pre + length c \<Longrightarrow>
   backtrack (pre @ CHR ''/'' # c) dotdot (length pre + length c) = max dotdot (length pre)"
proof (induction c rule: rev_induct)
  case Nil
  then show ?case by (subst backtrack.simps) (simp add: nth_append)
next
  case (snoc x xs)
  show ?case
  proof (cases "dotdot = length pre + length (xs @ [x])")
    case True
    then show ?thesis by (subst backtrack.simps) simp
  next
    case False
    with snoc.prems have lt: "dotdot \<le> length pre + length xs" by simp
    have x: "x \<noteq> CHR ''/''" using snoc.prems by auto
    have "(pre @ CHR ''/'' # xs @ [x]) ! (length pre + length (xs @ [x])) = x"
      by (simp add: nth_append)
    then have "backtrack (pre @ CHR ''/'' # xs @ [x]) dotdot (length pre + length (xs @ [x]))
          = backtrack ((pre @ CHR ''/'' # xs) @ [x]) dotdot (length pre + length xs)"
      using False snoc.prems x by (subst backtrack.simps) simp
    also have "\<dots> = backtrack (pre @ CHR ''/'' # xs) dotdot (length pre + length xs)"
      by (rule backtrack_prefix) simp
    also have "\<dots> = max dotdot (length pre)"
      using snoc.IH snoc.prems lt by simp
    finally show ?thesis .
  qed
qed

lemma join_snoc: "join (cs @ [c]) = join cs @ CHR ''/'' # c"
  by (simp add: join_def)

lemma join_Cons: "join (c # cs) = CHR ''/'' # c @ join cs"
  by (simp add: join_def)

lemma join_Nil: "join [] = []"
  by (simp add: join_def)

lemma join_eq_Nil: "join cs = [] \<longleftrightarrow> cs = []"
  by (cases cs) (simp_all add: join_def)

lemma render_snoc: "render (cs @ [c]) = (if cs = [] then [] else render cs) @ CHR ''/'' # c"
  by (simp add: render_def join_snoc join_Nil)

lemma length_render_gt1: "list_all proper cs \<Longrightarrow> 1 < length (render cs) \<longleftrightarrow> cs \<noteq> []"
  by (cases cs) (auto simp: render_def join_Cons proper_def)

lemma render_pop:
  assumes "list_all proper cs" and "cs \<noteq> []"
  shows "take (backtrack (render cs) 1 (length (render cs) - 1)) (render cs)
         = render (butlast cs)"
proof -
  from assms(2) obtain pre c where cs: "cs = pre @ [c]"
    by (cases cs rule: rev_cases) auto
  with assms(1) have c: "CHR ''/'' \<notin> set c" "c \<noteq> []"
    by (auto simp: proper_def)
  have r: "render cs = join pre @ CHR ''/'' # c"
    by (simp add: cs render_def join_snoc)
  have "backtrack (join pre @ CHR ''/'' # c) 1 (length (join pre) + length c)
        = max 1 (length (join pre))"
    using c by (intro backtrack_component) (auto simp: Suc_le_eq)
  then have b: "backtrack (join pre @ CHR ''/'' # c) 1
                   (length (join pre @ CHR ''/'' # c) - 1) = max 1 (length (join pre))"
    by simp
  have t: "take (backtrack (render cs) 1 (length (render cs) - 1)) (render cs)
           = take (max 1 (length (join pre))) (join pre @ CHR ''/'' # c)"
    using b by (simp only: r)
  have bl: "butlast cs = pre" by (simp add: cs)
  show ?thesis
  proof (cases "pre = []")
    case True
    then show ?thesis unfolding t bl by (simp add: render_def join_Nil)
  next
    case False
    then have "join pre \<noteq> []" by (simp add: join_eq_Nil)
    then have "max 1 (length (join pre)) = length (join pre)"
      by (cases "join pre") auto
    then show ?thesis unfolding t bl using False by (simp add: render_def)
  qed
qed

lemma takeWhile_proper:
  assumes "c \<noteq> CHR ''/''" and "\<not> is_dot (c # cs)" and "\<not> is_dotdot (c # cs)"
  shows "proper (takeWhile not_slash (c # cs))"
proof -
  have ns: "not_slash c" using assms(1) by (simp add: not_slash_def)
  have 1: "CHR ''/'' \<notin> set (takeWhile not_slash (c # cs))"
    using set_takeWhileD [of "CHR ''/''" not_slash "c # cs"] by (auto simp: not_slash_def)
  have 2: "takeWhile not_slash (c # cs) \<noteq> ''.''"
    using assms(2) ns
    by (auto simp: is_dot_def takeWhile_eq_Nil_iff not_slash_def split: list.splits)
  have 3: "takeWhile not_slash (c # cs) \<noteq> ''..''"
    using assms(3) ns
    by (cases cs)
       (auto simp: is_dotdot_def takeWhile_eq_Nil_iff not_slash_def split: list.splits if_splits)
  show ?thesis using ns 1 2 3 by (simp add: proper_def)
qed

lemma render_push:
  assumes "list_all proper cs"
  shows "(if length (render cs) \<noteq> 1 then render cs @ ''/'' else render cs) @ c
         = render (cs @ [c])"
proof (cases "cs = []")
  case True
  then show ?thesis by (simp add: render_def join_def)
next
  case False
  then have "length (render cs) \<noteq> 1"
    using length_render_gt1 [OF assms] by simp
  then show ?thesis using False by (simp add: render_def join_snoc)
qed

lemma clean_loop_canon:
  "list_all proper cs \<Longrightarrow>
   \<exists>cs'. list_all proper cs' \<and> clean_loop True 1 (render cs) rest = render cs'"
proof (induction rest arbitrary: cs rule: length_induct)
  case (1 rest)
  note IH = "1.IH" [rule_format]
  show ?case
  proof (cases rest)
    case Nil
    with "1.prems" show ?thesis by auto
  next
    case (Cons c r)
    consider (slash) "c = CHR ''/''"
      | (dot) "c \<noteq> CHR ''/''" "is_dot (c # r)"
      | (dotdot) "c \<noteq> CHR ''/''" "\<not> is_dot (c # r)" "is_dotdot (c # r)"
      | (elem) "c \<noteq> CHR ''/''" "\<not> is_dot (c # r)" "\<not> is_dotdot (c # r)"
      by blast
    then show ?thesis
    proof cases
      case slash
      then show ?thesis using IH [of r cs] "1.prems" Cons by simp
    next
      case dot
      then show ?thesis using IH [of r cs] "1.prems" Cons by simp
    next
      case dotdot
      then have r: "r \<noteq> []" by (auto simp: is_dotdot_def)
      then have len: "length (tl r) < length rest" using Cons by (cases r) auto
      show ?thesis
      proof (cases "cs = []")
        case True
        then have "clean_loop True 1 (render cs) rest = clean_loop True 1 (render cs) (tl r)"
          using dotdot Cons by (simp add: render_def)
        then show ?thesis using IH [OF len "1.prems"] by simp
      next
        case False
        then have "1 < length (render cs)"
          using length_render_gt1 [OF "1.prems"] by simp
        then have "clean_loop True 1 (render cs) rest
                   = clean_loop True 1 (render (butlast cs)) (tl r)"
          using dotdot Cons render_pop [OF "1.prems" False] by simp
        moreover have "list_all proper (butlast cs)"
          using "1.prems" by (auto simp: list_all_iff dest: in_set_butlastD)
        ultimately show ?thesis using IH [OF len, of "butlast cs"] by simp
      qed
    next
      case elem
      let ?e = "takeWhile not_slash (c # r)"
      have len: "length (dropWhile not_slash (c # r)) < length rest"
        using elem(1) Cons length_dropWhile_le [of not_slash r]
        by (simp add: not_slash_def)
      have "clean_loop True 1 (render cs) rest
            = clean_loop True 1 (render (cs @ [?e])) (dropWhile not_slash (c # r))"
        using elem Cons render_push [OF "1.prems", of ?e]
        by (simp add: Let_def)
      moreover have "list_all proper (cs @ [?e])"
        using "1.prems" takeWhile_proper [OF elem] by simp
      ultimately show ?thesis
        using IH [OF len, of "cs @ [?e]"] by simp
    qed
  qed
qed

lemma step_component:
  assumes "proper c" and "rest = [] \<or> hd rest = CHR ''/''" and "list_all proper pre"
  shows "clean_loop True 1 (render pre) (c @ rest)
         = clean_loop True 1 (render (pre @ [c])) rest"
proof -
  from assms(1) obtain x xs where c: "c = x # xs"
    by (cases c) (auto simp: proper_def)
  have x: "x \<noteq> CHR ''/''" and xs: "CHR ''/'' \<notin> set xs"
    using assms(1) by (auto simp: proper_def c)
  have nd: "\<not> is_dot (x # xs @ rest)"
    using assms(1) xs by (cases xs) (auto simp: is_dot_def proper_def c)
  have ndd: "\<not> is_dotdot (x # xs @ rest)"
  proof (cases xs)
    case Nil
    then show ?thesis using assms(2) x by (cases rest) (auto simp: is_dotdot_def)
  next
    case (Cons y ys)
    then show ?thesis
      using assms(1) xs by (cases ys) (auto simp: is_dotdot_def proper_def c)
  qed
  have all: "\<forall>a\<in>set (x # xs). not_slash a"
    using x xs by (auto simp: not_slash_def)
  have stop: "takeWhile not_slash rest = []" "dropWhile not_slash rest = rest"
    using assms(2) by (cases rest; simp add: not_slash_def)+
  have tw: "takeWhile not_slash (x # xs @ rest) = x # xs"
    using takeWhile_append2 [of "x # xs" not_slash rest] all stop by simp
  have dw: "dropWhile not_slash (x # xs @ rest) = rest"
    using dropWhile_append2 [of "x # xs" not_slash rest] all stop by simp
  have "clean_loop True 1 (render pre) (c @ rest)
        = clean_loop True 1 (render pre) (x # xs @ rest)"
    by (simp add: c)
  also have "\<dots> = clean_loop True 1
            ((if length (render pre) \<noteq> 1 then render pre @ ''/'' else render pre)
               @ takeWhile not_slash (x # xs @ rest))
            (dropWhile not_slash (x # xs @ rest))"
    using x nd ndd by (simp add: Let_def)
  also have "\<dots> = clean_loop True 1 (render (pre @ [c])) rest"
    by (simp only: tw dw render_push [OF assms(3)] c)
  finally show ?thesis .
qed

lemma join_slash_starts: "join cs @ ''/'' = [] \<or> hd (join cs @ ''/'') = CHR ''/''"
  by (cases cs) (simp_all add: join_def)

lemma replay:
  "list_all proper cs \<Longrightarrow> list_all proper pre \<Longrightarrow>
   clean_loop True 1 (render pre) (join cs @ ''/'') = render (pre @ cs)"
proof (induction cs arbitrary: pre)
  case Nil
  then show ?case by (simp add: join_Nil)
next
  case (Cons c cs)
  have "clean_loop True 1 (render pre) (join (c # cs) @ ''/'')
        = clean_loop True 1 (render pre) (c @ (join cs @ ''/''))"
    by (simp add: join_Cons)
  also have "\<dots> = clean_loop True 1 (render (pre @ [c])) (join cs @ ''/'')"
    using Cons.prems join_slash_starts [of cs] by (intro step_component) simp_all
  also have "\<dots> = render ((pre @ [c]) @ cs)"
    using Cons.prems by (intro Cons.IH) simp_all
  finally show ?case by simp
qed

lemma last_join: "list_all proper cs \<Longrightarrow> cs \<noteq> [] \<Longrightarrow> last (join cs) \<noteq> CHR ''/''"
proof (induction cs rule: rev_induct)
  case Nil
  then show ?case by simp
next
  case (snoc c cs)
  then have "c \<noteq> []" "CHR ''/'' \<notin> set c" by (auto simp: proper_def)
  then have "last c \<in> set c" "CHR ''/'' \<notin> set c" "c \<noteq> []"
    by simp_all
  then have "last c \<noteq> CHR ''/''" by metis
  then show ?case using \<open>c \<noteq> []\<close> by (simp add: join_snoc)
qed

lemma Clean_of_render:
  assumes "list_all proper cs" and "path_Clean (''/'' @ p) = render cs"
  shows "Clean p = closed_form cs"
proof (cases "cs = []")
  case True
  then show ?thesis using assms(2) by (simp add: Clean_def closed_form_def render_def)
next
  case False
  then show ?thesis
    using assms(2) last_join [OF assms(1) False]
    by (simp add: Clean_def closed_form_def render_def)
qed

lemma path_Clean_rooted: "path_Clean (CHR ''/'' # p) = clean_loop True 1 ''/'' p"
proof -
  obtain cs where "clean_loop True 1 (render []) p = render cs"
    using clean_loop_canon [of "[]" p] by auto
  then have "clean_loop True 1 ''/'' p \<noteq> []"
    by (cases cs) (auto simp: render_def join_def)
  then show ?thesis by (simp add: path_Clean_def Let_def)
qed

lemma Clean_closed_form: "\<exists>cs. list_all proper cs \<and> Clean p = closed_form cs"
proof -
  obtain cs where cs: "list_all proper cs" "clean_loop True 1 (render []) p = render cs"
    using clean_loop_canon [of "[]" p] by auto
  then have "path_Clean (''/'' @ p) = render cs"
    by (simp add: path_Clean_rooted render_def)
  with cs(1) show ?thesis using Clean_of_render by blast
qed

lemma Clean_fixed:
  assumes "list_all proper cs"
  shows "Clean (closed_form cs) = closed_form cs"
proof -
  have "clean_loop True 1 (render []) (join cs @ ''/'') = render ([] @ cs)"
    using assms by (intro replay) simp_all
  then have "path_Clean (''/'' @ closed_form cs) = render cs"
    by (cases "cs = []") (simp_all add: path_Clean_rooted closed_form_def render_def join_Nil)
  with assms show ?thesis by (rule Clean_of_render)
qed


lemma Clean_Clean: "Clean (Clean p) = Clean p"
proof -
  obtain cs where cs: "list_all proper cs" "Clean p = closed_form cs"
    using Clean_closed_form by blast
  then show ?thesis using Clean_fixed [of cs] by simp
qed

lemma Clean_slashes: "Clean p \<noteq> [] \<and> hd (Clean p) = CHR ''/'' \<and> last (Clean p) = CHR ''/''"
proof -
  obtain cs where cs: "list_all proper cs" "Clean p = closed_form cs"
    using Clean_closed_form by blast
  have "hd (closed_form cs) = CHR ''/''"
    by (cases cs) (simp_all add: closed_form_def join_def)
  moreover have "last (closed_form cs) = CHR ''/''" "closed_form cs \<noteq> []"
    by (simp_all add: closed_form_def)
  ultimately show ?thesis using cs(2) by simp
qed

text \<open>
  C8: for every path \<open>p\<close>, cleaning is idempotent, \<open>Clean (Clean p) = Clean p\<close>, and
  \<open>Clean p\<close> is not empty, starts with a slash and ends with a slash. \<open>Clean\<close> is a
  total function of its argument alone: it returns a path for every string and
  rejects none.
\<close>

theorem Clean_idempotent:
  "Clean (Clean p) = Clean p \<and> Clean p \<noteq> [] \<and> hd (Clean p) = CHR ''/''
   \<and> last (Clean p) = CHR ''/''"
  using Clean_Clean [of p] Clean_slashes [of p] by simp

theorem Clean_idempotent_witness:
  "Clean ''a/../../b//c/./d'' = ''/b/c/d/''
   \<and> Clean (Clean ''a/../../b//c/./d'') = ''/b/c/d/''"
proof -
  have "Clean ''a/../../b//c/./d'' = ''/b/c/d/''"
    by code_simp
  then show ?thesis
    using Clean_idempotent [of "''a/../../b//c/./d''"] by simp
qed

section \<open>The middleware\<close>





section \<open>The active campaign\<close>

lemma quo_nonneg: "0 \<le> a \<Longrightarrow> 0 < b \<Longrightarrow> quo a b = a div b"
  by (simp add: quo_def sgn_if)

lemma quo_neg: "a < 0 \<Longrightarrow> 0 < b \<Longrightarrow> quo a b = - ((- a) div b)"
  by (simp add: quo_def sgn_if)

lemma quo_bounds:
  assumes "0 \<le> a" and "0 < b"
  shows "quo a b * b \<le> a \<and> a < (quo a b + 1) * b"
proof -
  have e: "a div b * b + a mod b = a" by (rule div_mult_mod_eq)
  have m: "0 \<le> a mod b" "a mod b < b" using assms(2) by simp_all
  have d: "(a div b + 1) * b = a div b * b + b" by (simp add: distrib_right)
  have "a div b * b \<le> a" "a < (a div b + 1) * b"
    using e m d by linarith+
  then show ?thesis using assms by (simp add: quo_nonneg)
qed

lemma shown_ShowActive:
  assumes "ch_DB_ActiveCampaign ch = Inr campaign"
  shows "shown (calls (ShowActive ch r fresh)) =
           [\<lparr>show_ID = Campaign_ID campaign,
             show_Price = quo (Price campaign) 100,
             show_TimeLeft_Value = fst (TimeLeft (Sub (EndsAt campaign) (ch_TimeNow ch))),
             show_TimeLeft_Unit = snd (TimeLeft (Sub (EndsAt campaign) (ch_TimeNow ch)))\<rparr>]"
  using assms
  by (simp add: ShowActive_def Let_def conn_ops case_prod_beta split: option.splits)

text \<open>
  C7: when \<^verbatim>\<open>ActiveCampaign\<close> returns a campaign, \<^verbatim>\<open>ShowActive\<close> executes the show
  template once, with the ID of the campaign, its price divided by 100 (the integer
  quotient; 1200 gives 12) and one pair of a value and a unit. The pair is computed from
  \<open>left\<close>, the end of the campaign minus the time of the clock of the handler (the
  plain difference whenever it fits a duration): days when \<open>left\<close> is at least 24
  hours, else hours when it is at least one hour, else minutes when it is at least one
  minute, else seconds; the value is the whole number of such units in \<open>left\<close>
  (truncated toward zero when \<open>left\<close> is negative). A campaign that ends in exactly
  two hours gives the value 2 and the unit \<^verbatim>\<open>hour(s)\<close>.
\<close>

theorem ShowActive_time_left:
  assumes "ch_DB_ActiveCampaign ch = Inr campaign"
    and "left = Sub (EndsAt campaign) (ch_TimeNow ch)"
  shows "shown (calls (ShowActive ch r fresh)) =
           [\<lparr>show_ID = Campaign_ID campaign,
             show_Price = quo (Price campaign) 100,
             show_TimeLeft_Value = fst (TimeLeft left),
             show_TimeLeft_Unit = snd (TimeLeft left)\<rparr>]
    \<and> (minDuration \<le> EndsAt campaign - ch_TimeNow ch
         \<and> EndsAt campaign - ch_TimeNow ch \<le> maxDuration
         \<longrightarrow> left = EndsAt campaign - ch_TimeNow ch)
    \<and> (24 * Hour \<le> left \<longrightarrow>
          snd (TimeLeft left) = ''day(s)''
          \<and> fst (TimeLeft left) * (24 * Hour) \<le> left
          \<and> left < (fst (TimeLeft left) + 1) * (24 * Hour))
    \<and> (Hour \<le> left \<and> left < 24 * Hour \<longrightarrow>
          snd (TimeLeft left) = ''hour(s)''
          \<and> fst (TimeLeft left) * Hour \<le> left \<and> left < (fst (TimeLeft left) + 1) * Hour)
    \<and> (Minute \<le> left \<and> left < Hour \<longrightarrow>
          snd (TimeLeft left) = ''minute(s)''
          \<and> fst (TimeLeft left) * Minute \<le> left \<and> left < (fst (TimeLeft left) + 1) * Minute)
    \<and> (0 \<le> left \<and> left < Minute \<longrightarrow>
          snd (TimeLeft left) = ''second(s)''
          \<and> fst (TimeLeft left) * Second \<le> left \<and> left < (fst (TimeLeft left) + 1) * Second)
    \<and> (left < 0 \<longrightarrow>
          snd (TimeLeft left) = ''second(s)''
          \<and> fst (TimeLeft left) = - ((- left) div Second))
    \<and> (EndsAt campaign = ch_TimeNow ch + 2 * Hour \<longrightarrow>
          fst (TimeLeft left) = 2 \<and> snd (TimeLeft left) = ''hour(s)'')
    \<and> (0 \<le> Price campaign \<longrightarrow> quo (Price campaign) 100 = Price campaign div 100)
    \<and> (Price campaign = 1200 \<longrightarrow> quo (Price campaign) 100 = 12)"
proof (intro conjI impI)
  have H: "Hour = 3600000000000" "Minute = 60000000000" "Second = 1000000000"
    by (simp_all add: Hour_def Minute_def Second_def)
  show "shown (calls (ShowActive ch r fresh)) =
           [\<lparr>show_ID = Campaign_ID campaign,
             show_Price = quo (Price campaign) 100,
             show_TimeLeft_Value = fst (TimeLeft left),
             show_TimeLeft_Unit = snd (TimeLeft left)\<rparr>]"
    using shown_ShowActive [OF assms(1)] assms(2) by simp
  show "left = EndsAt campaign - ch_TimeNow ch"
    if "minDuration \<le> EndsAt campaign - ch_TimeNow ch
         \<and> EndsAt campaign - ch_TimeNow ch \<le> maxDuration"
    using that assms(2) by (simp add: Sub_def Let_def)
  show "snd (TimeLeft left) = ''day(s)''" if "24 * Hour \<le> left"
    using that by (simp add: TimeLeft_def)
  show "fst (TimeLeft left) * (24 * Hour) \<le> left" if "24 * Hour \<le> left"
    using that quo_bounds [of left "24 * Hour"] by (simp add: TimeLeft_def H)
  show "left < (fst (TimeLeft left) + 1) * (24 * Hour)" if "24 * Hour \<le> left"
    using that quo_bounds [of left "24 * Hour"] by (simp add: TimeLeft_def H)
  show "snd (TimeLeft left) = ''hour(s)''" if "Hour \<le> left \<and> left < 24 * Hour"
    using that by (simp add: TimeLeft_def)
  show "fst (TimeLeft left) * Hour \<le> left" if "Hour \<le> left \<and> left < 24 * Hour"
    using that quo_bounds [of left Hour] by (simp add: TimeLeft_def H)
  show "left < (fst (TimeLeft left) + 1) * Hour" if "Hour \<le> left \<and> left < 24 * Hour"
    using that quo_bounds [of left Hour] by (simp add: TimeLeft_def H)
  show "snd (TimeLeft left) = ''minute(s)''" if "Minute \<le> left \<and> left < Hour"
    using that by (simp add: TimeLeft_def H)
  show "fst (TimeLeft left) * Minute \<le> left" if "Minute \<le> left \<and> left < Hour"
    using that quo_bounds [of left Minute] by (simp add: TimeLeft_def H)
  show "left < (fst (TimeLeft left) + 1) * Minute" if "Minute \<le> left \<and> left < Hour"
    using that quo_bounds [of left Minute] by (simp add: TimeLeft_def H)
  show "snd (TimeLeft left) = ''second(s)''" if "0 \<le> left \<and> left < Minute"
    using that by (simp add: TimeLeft_def H)
  show "fst (TimeLeft left) * Second \<le> left" if "0 \<le> left \<and> left < Minute"
    using that quo_bounds [of left Second] by (simp add: TimeLeft_def H)
  show "left < (fst (TimeLeft left) + 1) * Second" if "0 \<le> left \<and> left < Minute"
    using that quo_bounds [of left Second] by (simp add: TimeLeft_def H)
  show "snd (TimeLeft left) = ''second(s)''" if "left < 0"
    using that by (simp add: TimeLeft_def H)
  show "fst (TimeLeft left) = - ((- left) div Second)" if "left < 0"
    using that quo_neg [of left Second] by (simp add: TimeLeft_def H)
  show "fst (TimeLeft left) = 2" if "EndsAt campaign = ch_TimeNow ch + 2 * Hour"
    using that assms(2)
    by (simp add: TimeLeft_def H Sub_def Let_def maxDuration_def minDuration_def quo_def)
  show "snd (TimeLeft left) = ''hour(s)''" if "EndsAt campaign = ch_TimeNow ch + 2 * Hour"
    using that assms(2)
    by (simp add: TimeLeft_def H Sub_def Let_def maxDuration_def minDuration_def quo_def)
  show "quo (Price campaign) 100 = Price campaign div 100" if "0 \<le> Price campaign"
    using that by (simp add: quo_nonneg)
  show "quo (Price campaign) 100 = 12" if "Price campaign = 1200"
    using that by (simp add: quo_def)
qed


theorem ShowActive_time_left_witness:
  "shown (calls (ShowActive mock_ch (test_request ''/'' [] []) fresh)) =
     [\<lparr>show_ID = 333, show_Price = 12, show_TimeLeft_Value = 2,
       show_TimeLeft_Unit = ''hour(s)''\<rparr>]"
proof -
  have e: "EndsAt test_campaign = ch_TimeNow mock_ch + 2 * Hour"
    "Price test_campaign = 1200" "Campaign_ID test_campaign = 333"
    "ch_DB_ActiveCampaign mock_ch = Inr test_campaign"
    by (simp_all add: mock_ch_def test_campaign_def)
  show ?thesis
    using ShowActive_time_left [of mock_ch test_campaign
        "Sub (EndsAt test_campaign) (ch_TimeNow mock_ch)" "test_request ''/'' [] []"] e
    by simp
qed

section \<open>New and Create\<close>

text \<open>
  C9: \<^verbatim>\<open>Create\<close> asserts the type of the context value under \<^verbatim>\<open>"campaign"\<close> without
  the check: for every request whose context holds no campaign under that key (no value,
  or a value of another type) \<^verbatim>\<open>Create\<close> panics, having written nothing and called
  no collaborator. On the same request \<^verbatim>\<open>New\<close> does not panic: it answers with status
  500 and the body \<^verbatim>\<open>Campaign not provided\<close> (\<^verbatim>\<open>http.Error\<close> ends the line).
\<close>

theorem Create_without_campaign_panics:
  assumes "\<forall>campaign. Value r ''campaign'' \<noteq> Some (CampaignPtr campaign)"
  shows "panicked (Create oh r fresh) \<noteq> None
         \<and> status (Create oh r fresh) = None
         \<and> body (Create oh r fresh) = []
         \<and> calls (Create oh r fresh) = []
         \<and> panicked (New oh r fresh) = None
         \<and> StatusCode (New oh r fresh) = 500
         \<and> body (New oh r fresh) = ''Campaign not provided'' @ [LF]
         \<and> calls (New oh r fresh) = []"
  using assms
  by (auto simp: Create_def New_def conn_ops split: option.splits ctx_value.splits)

theorem Create_without_campaign_panics_witness:
  "panicked (Create (mock_oh []) (test_request ''/'' [(''Email'', [''chris@test.com''])] []) fresh)
     = Some ''interface conversion: interface {} is not *db.Campaign''
   \<and> body (New (mock_oh []) (test_request ''/'' [(''Email'', [''chris@test.com''])] []) fresh)
     = ''Campaign not provided'' @ [LF]
   \<and> StatusCode (New (mock_oh []) (test_request ''/'' [(''Email'', [''chris@test.com''])] []) fresh)
     = 500"
  using Create_without_campaign_panics
    [of "test_request ''/'' [(''Email'', [''chris@test.com''])] []" "mock_oh []"]
  by (simp add: mock_defs Create_def conn_ops)















section \<open>Show\<close>

text \<open>
  C3: let the context hold an order whose campaign \<^verbatim>\<open>GetCampaign\<close> returns. If the
  charge ID of the order is not empty, \<^verbatim>\<open>Show\<close> calls \<^verbatim>\<open>GetCharge\<close> with it and never
  calls \<^verbatim>\<open>Charge\<close>; the status code is 200 in every case; when the lookup fails the body
  is the fixed line that starts \<^verbatim>\<open>Failed to lookup the status of your order\<close>; when it
  succeeds with the status \<^verbatim>\<open>succeeded\<close>, \<^verbatim>\<open>pending\<close> or \<^verbatim>\<open>failed\<close> the body is the fixed
  line of that status, and the three lines differ. If the charge ID is empty, \<^verbatim>\<open>Show\<close>
  executes the review template with the payment customer ID as the ID of the order, the
  raw address, and the price of the campaign divided by 100 (the integer quotient), and
  the body is what the template writes.
\<close>

theorem Show_branches:
  assumes "Value r ''order'' = Some (OrderPtr order)"
    and "oh_DB_GetCampaign oh (CampaignID order) = Inr campaign"
  shows
  "(ChargeID (Payment order) \<noteq> [] \<longrightarrow>
      GetChargeCall (ChargeID (Payment order)) \<in> set (calls (Show oh r fresh))
      \<and> filter is_Charge (calls (Show oh r fresh)) = []
      \<and> StatusCode (Show oh r fresh) = 200
      \<and> (oh_Stripe_GetCharge oh (ChargeID (Payment order)) = Inl err \<longrightarrow>
           body (Show oh r fresh) =
             ''Failed to lookup the status of your order. Please try again, or contact me if this persists - jon@calhoun.io'' @ [LF])
      \<and> (oh_Stripe_GetCharge oh (ChargeID (Payment order)) = Inr chg \<longrightarrow>
           (Status chg = ''succeeded'' \<longrightarrow> body (Show oh r fresh) =
              ''Your order has been completed successfully! You will be contacted when it ships.'' @ [LF])
           \<and> (Status chg = ''pending'' \<longrightarrow> body (Show oh r fresh) =
              ''Your payment is still pending.'' @ [LF])
           \<and> (Status chg = ''failed'' \<longrightarrow> body (Show oh r fresh) =
              ''Your payment failed. :( Please create a new order with a new card if you want to try again.'' @ [LF])))
   \<and> (ChargeID (Payment order) = [] \<longrightarrow>
      calls (Show oh r fresh) =
        [GetCampaignCall (CampaignID order),
         ExecuteReview \<lparr>review_Order_ID = CustomerID (Payment order),
                         review_Order_Address = Raw (Address order),
                         review_Campaign_Price = quo (Price campaign) 100\<rparr>]
      \<and> body (Show oh r fresh) =
          fst (oh_Templates_Review oh
                 \<lparr>review_Order_ID = CustomerID (Payment order),
                  review_Order_Address = Raw (Address order),
                  review_Campaign_Price = quo (Price campaign) 100\<rparr>)
      \<and> StatusCode (Show oh r fresh) = 200)
   \<and> distinct
        [''Your order has been completed successfully! You will be contacted when it ships.'',
         ''Your payment is still pending.'',
         ''Your payment failed. :( Please create a new order with a new card if you want to try again.'']"
  using assms
  by (cases "oh_Stripe_GetCharge oh (ChargeID (Payment order))")
     (simp_all add: Show_def Let_def conn_ops)

theorem Show_branches_witness:
  "body (Show (mock_oh ''pending'')
           (test_request ''/'' [] [(''order'', OrderPtr charged_order)]) fresh)
     = ''Your payment is still pending.'' @ [LF]
   \<and> StatusCode (Show (mock_oh ''pending'')
           (test_request ''/'' [] [(''order'', OrderPtr charged_order)]) fresh) = 200
   \<and> calls (Show (mock_oh ''pending'')
           (test_request ''/'' [] [(''order'', OrderPtr test_order)]) fresh)
     = [GetCampaignCall 333,
        ExecuteReview \<lparr>review_Order_ID = ''cus_abc123'', review_Order_Address = ''CHRIS GREENE'',
                        review_Campaign_Price = 12\<rparr>]"
proof -
  let ?r1 = "test_request ''/'' [] [(''order'', OrderPtr charged_order)]"
  let ?r2 = "test_request ''/'' [] [(''order'', OrderPtr test_order)]"
  have 1: "body (Show (mock_oh ''pending'') ?r1 fresh) = ''Your payment is still pending.'' @ [LF]
           \<and> StatusCode (Show (mock_oh ''pending'') ?r1 fresh) = 200"
    using Show_branches [where r = ?r1 and order = charged_order and oh = "mock_oh ''pending''"
        and campaign = test_campaign
        and chg = "\<lparr>Charge_ID = ''chg_xyz890'', Status = ''pending''\<rparr>"]
    by (simp add: mock_defs)
  have 2: "calls (Show (mock_oh ''pending'') ?r2 fresh)
     = [GetCampaignCall 333,
        ExecuteReview \<lparr>review_Order_ID = ''cus_abc123'', review_Order_Address = ''CHRIS GREENE'',
                        review_Campaign_Price = 12\<rparr>]"
    using Show_branches [where r = ?r2 and order = test_order and oh = "mock_oh ''pending''"
        and campaign = test_campaign]
    by (simp add: mock_defs quo_def)
  from 1 2 show ?thesis by simp
qed

text \<open>
  C10: for an order with a charge ID, when \<^verbatim>\<open>GetCampaign\<close> and \<^verbatim>\<open>GetCharge\<close> both
  succeed and the status of the charge is none of \<^verbatim>\<open>succeeded\<close>, \<^verbatim>\<open>pending\<close> and
  \<^verbatim>\<open>failed\<close>, \<^verbatim>\<open>Show\<close> writes nothing and logs nothing: the status code is 200, the
  body is empty, and the two lookups are the only calls.
\<close>

theorem Show_unknown_status:
  assumes "Value r ''order'' = Some (OrderPtr order)"
    and "ChargeID (Payment order) \<noteq> []"
    and "oh_DB_GetCampaign oh (CampaignID order) = Inr campaign"
    and "oh_Stripe_GetCharge oh (ChargeID (Payment order)) = Inr chg"
    and "Status chg \<noteq> ''succeeded''" and "Status chg \<noteq> ''pending''"
    and "Status chg \<noteq> ''failed''"
  shows "StatusCode (Show oh r fresh) = 200
         \<and> body (Show oh r fresh) = []
         \<and> calls (Show oh r fresh) =
             [GetCampaignCall (CampaignID order), GetChargeCall (ChargeID (Payment order))]
         \<and> filter is_Printf (calls (Show oh r fresh)) = []
         \<and> panicked (Show oh r fresh) = None
         \<and> Show oh r fresh = fresh\<lparr>calls :=
             [GetCampaignCall (CampaignID order), GetChargeCall (ChargeID (Payment order))]\<rparr>"
  using assms by (simp add: Show_def Let_def conn_ops)

theorem Show_unknown_status_witness:
  "StatusCode (Show (mock_oh ''refunded'')
       (test_request ''/'' [] [(''order'', OrderPtr charged_order)]) fresh) = 200
   \<and> body (Show (mock_oh ''refunded'')
       (test_request ''/'' [] [(''order'', OrderPtr charged_order)]) fresh) = []
   \<and> calls (Show (mock_oh ''refunded'')
       (test_request ''/'' [] [(''order'', OrderPtr charged_order)]) fresh)
     = [GetCampaignCall 333, GetChargeCall ''chg_xyz890'']"
  using Show_unknown_status [of "test_request ''/'' [] [(''order'', OrderPtr charged_order)]"
      charged_order "mock_oh ''refunded''" test_campaign
      "\<lparr>Charge_ID = ''chg_xyz890'', Status = ''refunded''\<rparr>"]
  by (simp add: mock_defs StatusCode_def fresh_def)

section \<open>Confirm\<close>



text \<open>
  C2: let the context hold an order whose campaign \<^verbatim>\<open>GetCampaign\<close> returns. When
  \<^verbatim>\<open>Charge\<close> fails with an error of type \<^verbatim>\<open>stripe.Error\<close>, the body is the message of
  that error and nothing else, and \<^verbatim>\<open>ConfirmOrder\<close> is not called. When \<^verbatim>\<open>Charge\<close> fails
  with any other error, the status is 500, the body is the generic line with the
  support address, and \<^verbatim>\<open>ConfirmOrder\<close> is not called. When \<^verbatim>\<open>Charge\<close> succeeds and
  \<^verbatim>\<open>ConfirmOrder\<close> fails, the status is 500 and the body is the line that starts
  \<^verbatim>\<open>You were charged\<close>. And for every handler and request, every \<^verbatim>\<open>ConfirmOrder\<close> that
  \<^verbatim>\<open>Confirm\<close> makes comes after a \<^verbatim>\<open>Charge\<close> that returned no error.
\<close>

theorem Confirm_failures:
  "(Value r ''order'' = Some (OrderPtr order)
      \<and> oh_DB_GetCampaign oh (CampaignID order) = Inr campaign
      \<and> oh_Stripe_Charge oh (CustomerID (Payment order)) (Price campaign) = Inl (StripeError msg)
    \<longrightarrow> body (Confirm oh r fresh) = msg
        \<and> StatusCode (Confirm oh r fresh) = 200
        \<and> calls (Confirm oh r fresh) =
            [GetCampaignCall (CampaignID order),
             ChargeCall (CustomerID (Payment order)) (Price campaign)])
   \<and> (Value r ''order'' = Some (OrderPtr order)
      \<and> oh_DB_GetCampaign oh (CampaignID order) = Inr campaign
      \<and> oh_Stripe_Charge oh (CustomerID (Payment order)) (Price campaign) = Inl err
      \<and> (\<forall>m. err \<noteq> StripeError m)
    \<longrightarrow> body (Confirm oh r fresh) =
          ''Something went wrong processing your card. Please contact me for support - jon@calhoun.io'' @ [LF]
        \<and> StatusCode (Confirm oh r fresh) = 500
        \<and> calls (Confirm oh r fresh) =
            [GetCampaignCall (CampaignID order),
             ChargeCall (CustomerID (Payment order)) (Price campaign)])
   \<and> (Value r ''order'' = Some (OrderPtr order)
      \<and> oh_DB_GetCampaign oh (CampaignID order) = Inr campaign
      \<and> oh_Stripe_Charge oh (CustomerID (Payment order)) (Price campaign) = Inr chg
      \<and> oh_DB_ConfirmOrder oh (Order_ID order) (PostFormValue r ''address-raw'') (Charge_ID chg)
          = Some err'
    \<longrightarrow> body (Confirm oh r fresh) =
          ''You were charged, but something went wrong saving your data. Please contact me for support - jon@calhoun.io'' @ [LF]
        \<and> StatusCode (Confirm oh r fresh) = 500
        \<and> location (Confirm oh r fresh) = None)
   \<and> confirm_after_charge oh' False (calls (Confirm oh' r' fresh))"
proof (intro conjI impI)
  show "confirm_after_charge oh' False (calls (Confirm oh' r' fresh))"
    by (simp add: Confirm_def Let_def conn_ops
        split: option.splits ctx_value.splits sum.splits error.splits)
qed (cases err; simp add: Confirm_def Let_def conn_ops)+

theorem Confirm_failures_witness:
  "body (Confirm ((mock_oh [])\<lparr>oh_Stripe_Charge := (\<lambda>c a. Inl (StripeError ''Your card was declined.''))\<rparr>)
          (test_request ''/confirm/'' [] [(''order'', OrderPtr test_order)]) fresh)
     = ''Your card was declined.''
   \<and> StatusCode (Confirm ((mock_oh [])\<lparr>oh_Stripe_Charge := (\<lambda>c a. Inl (OtherError ''timeout''))\<rparr>)
          (test_request ''/confirm/'' [] [(''order'', OrderPtr test_order)]) fresh) = 500
   \<and> StatusCode (Confirm ((mock_oh [])\<lparr>oh_DB_ConfirmOrder := (\<lambda>i a c. Some (OtherError ''db''))\<rparr>)
          (test_request ''/confirm/'' [] [(''order'', OrderPtr test_order)]) fresh) = 500
   \<and> confirm_after_charge (mock_oh [])  False
        (calls (Confirm (mock_oh []) (test_request ''/confirm/'' [] [(''order'', OrderPtr test_order)]) fresh))"
proof -
  let ?r = "test_request ''/confirm/'' [] [(''order'', OrderPtr test_order)]"
  let ?oh1 = "(mock_oh [])\<lparr>oh_Stripe_Charge := (\<lambda>c a. Inl (StripeError ''Your card was declined.''))\<rparr>"
  let ?oh2 = "(mock_oh [])\<lparr>oh_Stripe_Charge := (\<lambda>c a. Inl (OtherError ''timeout''))\<rparr>"
  let ?oh3 = "(mock_oh [])\<lparr>oh_DB_ConfirmOrder := (\<lambda>i a c. Some (OtherError ''db''))\<rparr>"
  have 1: "body (Confirm ?oh1 ?r fresh) = ''Your card was declined.''"
    using Confirm_failures [where r = ?r and order = test_order and oh = ?oh1
        and campaign = test_campaign and msg = "''Your card was declined.''", THEN conjunct1]
    by (simp add: mock_defs)
  have 2: "StatusCode (Confirm ?oh2 ?r fresh) = 500"
    using Confirm_failures [where r = ?r and order = test_order and oh = ?oh2
        and campaign = test_campaign and err = "OtherError ''timeout''",
        THEN conjunct2, THEN conjunct1]
    by (simp add: mock_defs)
  have 3: "StatusCode (Confirm ?oh3 ?r fresh) = 500"
    using Confirm_failures [where r = ?r and order = test_order and oh = ?oh3
        and campaign = test_campaign and err' = "OtherError ''db''"
        and chg = "\<lparr>Charge_ID = ''chg_xyz890'', Status = ''pending''\<rparr>",
        THEN conjunct2, THEN conjunct2, THEN conjunct1]
    by (simp add: mock_defs)
  have 4: "confirm_after_charge (mock_oh []) False (calls (Confirm (mock_oh []) ?r fresh))"
    using Confirm_failures [where oh' = "mock_oh []" and r' = ?r] by simp
  from 1 2 3 4 show ?thesis by simp
qed

end
